theory Spec2Isabelle
  imports
    Main
    "HOL-Library.Char_ord"
    "HOL-Library.List_Lexorder"
    "HOL-Library.FSet"
    "HOL-Library.Word"
begin

section \<open>LDAP Attribute Hunter: a shallow embedding of \<^verbatim>\<open>ldap_hunter.py\<close>\<close>

text \<open>
  The program reads a text dump line by line, collects the names before the first colon,
  marks the names that contain a sensitivity keyword and optionally writes all names to a
  file. The embedding keeps the four functions of the source
  (\<^verbatim>\<open>extract_ldap_attributes\<close>, \<^verbatim>\<open>find_interesting_attributes\<close>,
  \<^verbatim>\<open>save_raw_output\<close>, \<^verbatim>\<open>main\<close>) and makes their effects explicit: the file
  system and the console are fields of a \<open>world\<close> record that every function takes and
  returns, and an exception is a value of type \<open>error\<close>. The markup renderer of the
  \<^verbatim>\<open>rich\<close> library, which decides whether a print raises, is a parameter of the
  functions that print interpolated text.
\<close>

subsection \<open>Python strings\<close>

text \<open>
  A Python \<^verbatim>\<open>str\<close> is a sequence of code points. It is modelled as a \<^typ>\<open>string\<close>, each
  \<^typ>\<open>char\<close> standing for the code point of the same number, so the model covers text
  whose code points are below 256. On that range the functions below are those of Python:
  the order of \<^typ>\<open>char\<close> is the order of the code points, the order of \<^typ>\<open>string\<close>
  is the lexicographic one that \<^verbatim>\<open>sorted\<close> uses, and \<open>isspace\<close> and \<open>lower\<close> list
  the white space and the cased letters of the range.
\<close>

definition isspace :: "char \<Rightarrow> bool" where
  \<comment> \<open>\<^verbatim>\<open>str.isspace\<close> on one character: TAB, LF, VT, FF, CR, FS, GS, RS, US, space, NEL, NBSP.\<close>
  "isspace c \<longleftrightarrow>
     c \<in> set [CHR 0x09, CHR 0x0A, CHR 0x0B, CHR 0x0C, CHR 0x0D, CHR 0x1C, CHR 0x1D,
               CHR 0x1E, CHR 0x1F, CHR 0x20, CHR 0x85, CHR 0xA0]"

definition strip :: "string \<Rightarrow> string" where
  \<comment> \<open>\<^verbatim>\<open>s.strip()\<close>: white space removed at both ends.\<close>
  "strip s = rev (dropWhile isspace (rev (dropWhile isspace s)))"

definition lower_char :: "char \<Rightarrow> char" where
  \<comment> \<open>The upper-case letters below 256 are A to Z and U+00C0 to U+00DE without U+00D7.\<close>
  "lower_char c =
     (let n = (of_char c :: nat)
      in if (65 \<le> n \<and> n \<le> 90) \<or> (192 \<le> n \<and> n \<le> 222 \<and> n \<noteq> 215)
         then char_of (n + 32) else c)"

definition lower :: "string \<Rightarrow> string" where
  \<comment> \<open>\<^verbatim>\<open>s.lower()\<close>\<close>
  "lower s = map lower_char s"

fun startswith :: "string \<Rightarrow> string \<Rightarrow> bool" where
  \<comment> \<open>\<^verbatim>\<open>s.startswith(p)\<close>\<close>
  "startswith s [] = True"
| "startswith [] (p # ps) = False"
| "startswith (c # cs) (p # ps) = (c = p \<and> startswith cs ps)"

fun contains :: "string \<Rightarrow> string \<Rightarrow> bool" where
  \<comment> \<open>\<^verbatim>\<open>sub in s\<close>: \<open>sub\<close> occurs in \<open>s\<close> as a contiguous substring.\<close>
  "contains sub [] = (sub = [])"
| "contains sub (c # cs) = (startswith (c # cs) sub \<or> contains sub cs)"

definition split_first_colon :: "string \<Rightarrow> string" where
  \<comment> \<open>\<^verbatim>\<open>line.split(':', 1)[0]\<close>: the text before the first colon, the whole line when
      there is none.\<close>
  "split_first_colon line = takeWhile (\<lambda>c. c \<noteq> CHR '':'') line"

subsection \<open>Files, console and exceptions\<close>

text \<open>
  A file is represented by the text that a UTF-8 text-mode handle reads from it or writes
  to it (\<^verbatim>\<open>encoding='utf-8'\<close>; on reading, \<^verbatim>\<open>errors='ignore'\<close> drops undecodable bytes
  instead of raising). Path names are opaque keys. A path outside the domain of \<open>files\<close>
  does not exist. A directory exists and cannot be opened. An inaccessible path is one
  for which \<^verbatim>\<open>os.stat\<close> raises an \<^verbatim>\<open>OSError\<close> that \<^verbatim>\<open>Path.exists\<close> raises again (a name
  that is too long, a parent directory that cannot be searched). A regular file carries
  its two permissions, its text, and an optional read fault: \<open>Some n\<close> says that the
  device raises an I/O error once \<open>n\<close> lines have been delivered.

  \<open>creatable\<close> tells whether \<^verbatim>\<open>open(p, 'w')\<close> can create a file that does not exist yet.
  \<open>write_fault p = Some n\<close> says that the handle opened for writing on \<open>p\<close> accepts \<open>n\<close>
  writes and then raises (at the next write, or when the file is closed). \<open>written\<close>
  holds, for a path opened for writing, the bytes that have been written to it.
\<close>

datatype error =
    FileNotFoundError string
  | IsADirectoryError string
  | PermissionError string
  | OSError string
  | ReadError
  | OpenForWritingError string
  | WriteError string
  | MarkupError

datatype node =
    Directory
  | Inaccessible
  | File (readable: bool) (writable: bool) (content: string) (fault: "nat option")

datatype message =
    Banner
  | TaskAdded string
  | TaskCompleted string
  | ErrorReadingFile error
  | FileNotFound string
  | AnalysisComplete
  | Statistics nat nat string
  | InterestingHeader
  | InterestingItem string
  | SavedTo string

type_synonym byte = "8 word"

record world =
  files :: "string \<rightharpoonup> node"
  creatable :: "string \<Rightarrow> bool"
  write_fault :: "string \<Rightarrow> nat option"
  written :: "string \<rightharpoonup> byte list"
  console :: "message list"

record args =
  args_file :: string
  args_output :: "string option"

text \<open>
  \<^verbatim>\<open>console.print\<close> parses its text as console markup and raises \<^verbatim>\<open>MarkupError\<close> when
  the text closes a tag that is not open. The program escapes nothing, so a path, an
  attribute name or an exception text that it interpolates can make the print raise. The
  renderer is a parameter: \<open>refuses m\<close> says that the renderer raises on the text of
  message \<open>m\<close>. The texts without interpolation (banner, task descriptions, headings) are
  well-formed markup; printing them does not raise.
\<close>

type_synonym renderer = "message \<Rightarrow> bool"

definition console_print :: "world \<Rightarrow> message \<Rightarrow> world" where
  \<comment> \<open>\<^verbatim>\<open>console.print(...)\<close> of a text without interpolation\<close>
  "console_print w m = w\<lparr>console := console w @ [m]\<rparr>"

definition console_print_markup ::
  "renderer \<Rightarrow> world \<Rightarrow> message \<Rightarrow> (error \<times> world) + world" where
  \<comment> \<open>\<^verbatim>\<open>console.print(f"...")\<close> of a text with interpolated values\<close>
  "console_print_markup refuses w m =
     (if refuses m then Inl (MarkupError, w) else Inr (console_print w m))"

definition add_task :: "world \<Rightarrow> string \<Rightarrow> world" where
  \<comment> \<open>\<^verbatim>\<open>progress.add_task(description, total=None)\<close>\<close>
  "add_task w description = console_print w (TaskAdded description)"

definition update_completed :: "world \<Rightarrow> string \<Rightarrow> world" where
  \<comment> \<open>\<^verbatim>\<open>progress.update(task, completed=True)\<close>\<close>
  "update_completed w description = console_print w (TaskCompleted description)"

definition path_exists :: "world \<Rightarrow> string \<Rightarrow> error + bool" where
  \<comment> \<open>\<^verbatim>\<open>Path(p).exists()\<close>\<close>
  "path_exists w p =
     (case files w p of
        None \<Rightarrow> Inr False
      | Some Inaccessible \<Rightarrow> Inl (OSError p)
      | Some _ \<Rightarrow> Inr True)"

subsection \<open>Reading a file line by line\<close>

text \<open>
  A text-mode handle opened with the default \<^verbatim>\<open>newline=None\<close> turns \<^verbatim>\<open>\r\n\<close> and a lone
  \<^verbatim>\<open>\r\<close> into \<^verbatim>\<open>\n\<close>, and its iteration yields the lines with their terminating
  \<^verbatim>\<open>\n\<close>; only the last line can lack one.
\<close>

fun universal_newlines :: "string \<Rightarrow> string" where
  "universal_newlines [] = []"
| "universal_newlines [c] = (if c = CHR 0x0D then [CHR 0x0A] else [c])"
| "universal_newlines (c # d # cs) =
     (if c = CHR 0x0D
      then (if d = CHR 0x0A then CHR 0x0A # universal_newlines cs
            else CHR 0x0A # universal_newlines (d # cs))
      else c # universal_newlines (d # cs))"

fun split_lines :: "string \<Rightarrow> string \<Rightarrow> string list" where
  "split_lines cur [] = (if cur = [] then [] else [cur])"
| "split_lines cur (c # cs) =
     (if c = CHR 0x0A then (cur @ [c]) # split_lines [] cs else split_lines (cur @ [c]) cs)"

definition text_lines :: "string \<Rightarrow> string list" where
  "text_lines t = split_lines [] (universal_newlines t)"

datatype read_event = Yield string | Raise error

definition open_read :: "world \<Rightarrow> string \<Rightarrow> error + read_event list" where
  \<comment> \<open>\<^verbatim>\<open>open(file_path, 'r', encoding='utf-8', errors='ignore')\<close> and what iterating
      over the handle delivers.\<close>
  "open_read w p =
     (case files w p of
        None \<Rightarrow> Inl (FileNotFoundError p)
      | Some Directory \<Rightarrow> Inl (IsADirectoryError p)
      | Some Inaccessible \<Rightarrow> Inl (OSError p)
      | Some (File r wr t flt) \<Rightarrow>
          if \<not> r then Inl (PermissionError p)
          else (case flt of
                  None \<Rightarrow> Inr (map Yield (text_lines t))
                | Some n \<Rightarrow> Inr (map Yield (take n (text_lines t)) @ [Raise ReadError])))"

subsection \<open>The attribute extractor\<close>

fun scan_lines :: "string fset \<Rightarrow> read_event list \<Rightarrow> error + string fset" where
  \<comment> \<open>The \<^verbatim>\<open>for line in f\<close> loop; \<open>attributes\<close> is the set built so far.\<close>
  "scan_lines attributes [] = Inr attributes"
| "scan_lines attributes (Raise e # rest) = Inl e"
| "scan_lines attributes (Yield line # rest) =
     (if CHR '':'' \<notin> set line \<or> startswith line ''#'' then scan_lines attributes rest
      else (let attr = strip (split_first_colon line)
            in if attr \<noteq> [] then scan_lines (finsert attr attributes) rest
               else scan_lines attributes rest))"

definition extract_ldap_attributes ::
  "renderer \<Rightarrow> world \<Rightarrow> string \<Rightarrow> (error \<times> world) + (world \<times> string fset)" where
  \<comment> \<open>\<open>Inr\<close> is a normal return with the set, \<open>Inl\<close> an exception that leaves the function:
      the print of the \<^verbatim>\<open>except\<close> branch is not protected.\<close>
  "extract_ldap_attributes refuses w file_path =
     (let task = ''[cyan]Analyzing LDAP dump...'';
          w1 = add_task w task
      in case (case open_read w1 file_path of
                 Inl e \<Rightarrow> Inl e
               | Inr f \<Rightarrow> scan_lines {||} f) of
           Inr attributes \<Rightarrow> Inr (update_completed w1 task, attributes)
         | Inl e \<Rightarrow>
             (case console_print_markup refuses (update_completed w1 task)
                     (ErrorReadingFile e) of
                Inl x \<Rightarrow> Inl x
              | Inr w2 \<Rightarrow> Inr (w2, {||})))"

definition returned :: "('e \<times> 'w) + ('w \<times> 'a) \<Rightarrow> 'e + 'a" where
  \<comment> \<open>What the caller sees of a call: the exception or the value.\<close>
  "returned x = (case x of Inl (e, w) \<Rightarrow> Inl e | Inr (w, v) \<Rightarrow> Inr v)"

definition world_after :: "('e \<times> 'w) + ('w \<times> 'a) \<Rightarrow> 'w" where
  \<comment> \<open>The world a call leaves, whether it returns or raises.\<close>
  "world_after x = (case x of Inl (e, w) \<Rightarrow> w | Inr (w, v) \<Rightarrow> w)"

subsection \<open>The keyword matcher\<close>

definition keyword_list :: "string list" where
  \<comment> \<open>The list \<^verbatim>\<open>keywords\<close> of the source.\<close>
  "keyword_list =
     [''cascade'', ''legacy'', ''pwd'', ''password'', ''secret'', ''cred'',
      ''hash'', ''key'', ''backup'', ''admin'', ''service'', ''old'', ''temp'']"

definition is_interesting :: "string \<Rightarrow> bool" where
  \<comment> \<open>\<^verbatim>\<open>any(keyword in attr.lower() for keyword in keywords)\<close>\<close>
  "is_interesting attr \<longleftrightarrow> list_ex (\<lambda>keyword. contains keyword (lower attr)) keyword_list"

fun collect_interesting :: "string list \<Rightarrow> string list \<Rightarrow> string list" where
  \<comment> \<open>The \<^verbatim>\<open>for attr in attributes\<close> loop over the sequence in which the set is iterated;
      \<open>interesting\<close> is the list built so far.\<close>
  "collect_interesting interesting [] = interesting"
| "collect_interesting interesting (attr # rest) =
     collect_interesting
       (if is_interesting attr then interesting @ [attr] else interesting) rest"

definition find_interesting_in_order :: "string list \<Rightarrow> string list" where
  \<comment> \<open>The result of the matcher when the set is iterated in the order \<open>order\<close>.\<close>
  "find_interesting_in_order order = sort (collect_interesting [] order)"

text \<open>
  Python does not fix the order in which a set is iterated. The embedding iterates in
  ascending order; \<open>find_interesting_in_order\<close> is there to state that no other order
  changes the result.
\<close>

definition find_interesting_attributes :: "world \<Rightarrow> string fset \<Rightarrow> world \<times> string list" where
  "find_interesting_attributes w attributes =
     (let task = ''[cyan]Hunting for interesting attributes...'';
          w1 = add_task w task;
          interesting = collect_interesting [] (sorted_list_of_fset attributes);
          w2 = update_completed w1 task
      in (w2, sort interesting))"

subsection \<open>The reporter\<close>

definition utf8_encode_char :: "char \<Rightarrow> byte list" where
  \<comment> \<open>UTF-8 of a code point below 256: one byte below 128, two bytes from 128 on.\<close>
  "utf8_encode_char c =
     (let n = (of_char c :: nat)
      in if n < 128 then [of_nat n] else [of_nat (192 + n div 64), of_nat (128 + n mod 64)])"

definition utf8_encode :: "string \<Rightarrow> byte list" where
  "utf8_encode s = concat (map utf8_encode_char s)"

definition open_write :: "world \<Rightarrow> string \<Rightarrow> error + world" where
  \<comment> \<open>\<^verbatim>\<open>open(file_path, 'w', encoding='utf-8')\<close>: the file is created or truncated.\<close>
  "open_write w p =
     (case files w p of
        None \<Rightarrow>
          if creatable w p
          then Inr (w\<lparr>files := (files w)(p \<mapsto> File True True [] None),
                     written := (written w)(p \<mapsto> [])\<rparr>)
          else Inl (OpenForWritingError p)
      | Some Directory \<Rightarrow> Inl (OpenForWritingError p)
      | Some Inaccessible \<Rightarrow> Inl (OpenForWritingError p)
      | Some (File r wr t flt) \<Rightarrow>
          if wr
          then Inr (w\<lparr>files := (files w)(p \<mapsto> File r wr [] flt),
                     written := (written w)(p \<mapsto> [])\<rparr>)
          else Inl (OpenForWritingError p))"

definition file_write ::
  "world \<Rightarrow> string \<Rightarrow> nat option \<Rightarrow> string \<Rightarrow> (error \<times> world) + world" where
  \<comment> \<open>\<^verbatim>\<open>f.write(s)\<close> on the handle of \<open>p\<close>, which still accepts the given number of
      writes: the text is appended, as its UTF-8 bytes, or the write raises.\<close>
  "file_write w p accepts s =
     (if accepts = Some 0 then Inl (WriteError p, w)
      else (case files w p of
              Some (File r wr t flt) \<Rightarrow>
                Inr (w\<lparr>files := (files w)(p \<mapsto> File r wr (t @ s) flt),
                       written := (written w)(p \<mapsto>
                         (case written w p of None \<Rightarrow> [] | Some b \<Rightarrow> b) @ utf8_encode s)\<rparr>)
            | _ \<Rightarrow> Inr w))"

definition file_close :: "world \<Rightarrow> string \<Rightarrow> nat option \<Rightarrow> (error \<times> world) + world" where
  \<comment> \<open>The end of the \<^verbatim>\<open>with\<close> block: a handle with a fault raises when it is closed.\<close>
  "file_close w p accepts =
     (case accepts of None \<Rightarrow> Inr w | Some n \<Rightarrow> Inl (WriteError p, w))"

fun write_attributes ::
  "world \<Rightarrow> string \<Rightarrow> nat option \<Rightarrow> string list \<Rightarrow> (error \<times> world) + world" where
  \<comment> \<open>The \<^verbatim>\<open>for attr in sorted(attributes)\<close> loop and the closing of the file.\<close>
  "write_attributes w p accepts [] = file_close w p accepts"
| "write_attributes w p accepts (attr # rest) =
     (case file_write w p accepts (attr @ [CHR 0x0A]) of
        Inl x \<Rightarrow> Inl x
      | Inr w1 \<Rightarrow> write_attributes w1 p (map_option (\<lambda>n. n - 1) accepts) rest)"

definition save_raw_output ::
  "world \<Rightarrow> string \<Rightarrow> string fset \<Rightarrow> string list \<Rightarrow> (error \<times> world) + world" where
  "save_raw_output w file_path attributes interesting =
     (case open_write w file_path of
        Inl e \<Rightarrow> Inl (e, w)
      | Inr w1 \<Rightarrow>
          write_attributes w1 file_path (write_fault w file_path)
            (sorted_list_of_fset attributes))"

definition show_banner :: "world \<Rightarrow> world" where
  "show_banner w = console_print w Banner"

fun print_interesting ::
  "renderer \<Rightarrow> world \<Rightarrow> string list \<Rightarrow> (error \<times> world) + world" where
  \<comment> \<open>The \<^verbatim>\<open>for attr in interesting\<close> loop of the report.\<close>
  "print_interesting refuses w [] = Inr w"
| "print_interesting refuses w (attr # rest) =
     (case console_print_markup refuses w (InterestingItem attr) of
        Inl x \<Rightarrow> Inl x
      | Inr w1 \<Rightarrow> print_interesting refuses w1 rest)"

definition report ::
  "renderer \<Rightarrow> world \<Rightarrow> args \<Rightarrow> string fset \<Rightarrow> string list \<Rightarrow> (error \<times> world) + world" where
  \<comment> \<open>The part of \<^verbatim>\<open>main\<close> after the progress display: the results and the optional
      save.\<close>
  "report refuses w2 a attributes interesting =
     (let w3 = console_print w2 AnalysisComplete
      in case console_print_markup refuses w3
                (Statistics (fcard attributes) (length interesting) (args_file a)) of
           Inl x \<Rightarrow> Inl x
         | Inr w4 \<Rightarrow>
             (case (if interesting \<noteq> []
                    then print_interesting refuses (console_print w4 InterestingHeader)
                           interesting
                    else Inr w4) of
                Inl x \<Rightarrow> Inl x
              | Inr w5 \<Rightarrow>
                  (case args_output a of
                     None \<Rightarrow> Inr w5
                   | Some out \<Rightarrow>
                       if out = [] then Inr w5
                       else (case save_raw_output w5 out attributes interesting of
                               Inl x \<Rightarrow> Inl x
                             | Inr w6 \<Rightarrow> console_print_markup refuses w6 (SavedTo out)))))"

definition main :: "renderer \<Rightarrow> world \<Rightarrow> args \<Rightarrow> (error \<times> world) + world" where
  \<comment> \<open>\<open>a\<close> is the result of \<^verbatim>\<open>parser.parse_args()\<close>. \<open>Inr\<close> is a normal return, \<open>Inl\<close> an
      exception that leaves \<open>main\<close>, with the world at that moment.\<close>
  "main refuses w a =
     (let w0 = show_banner w
      in case path_exists w0 (args_file a) of
           Inl e \<Rightarrow> Inl (e, w0)
         | Inr False \<Rightarrow> console_print_markup refuses w0 (FileNotFound (args_file a))
         | Inr True \<Rightarrow>
             (case extract_ldap_attributes refuses w0 (args_file a) of
                Inl x \<Rightarrow> Inl x
              | Inr (w1, attributes) \<Rightarrow>
                  (let (w2, interesting) = find_interesting_attributes w1 attributes
                   in report refuses w2 a attributes interesting)))"

definition final_world :: "('e \<times> 'w) + 'w \<Rightarrow> 'w" where
  \<comment> \<open>The world \<open>main\<close> leaves, whether it returns or raises.\<close>
  "final_world x = (case x of Inl (e, w) \<Rightarrow> w | Inr w \<Rightarrow> w)"


definition only_prints :: "world \<Rightarrow> world \<Rightarrow> bool" where
  \<comment> \<open>\<open>w'\<close> is \<open>w\<close> after some prints, none of them a save confirmation.\<close>
  "only_prints w w' \<longleftrightarrow>
     files w' = files w \<and> creatable w' = creatable w \<and> write_fault w' = write_fault w \<and>
     written w' = written w \<and>
     (\<exists>msgs. console w' = console w @ msgs \<and> (\<forall>q. SavedTo q \<notin> set msgs))"

subsection \<open>The markup renderer\<close>

text \<open>
  \<open>rich_refuses\<close> is the renderer that the examples use. It follows \<^verbatim>\<open>rich.markup\<close>
  (version 13.7): a tag is an opening bracket, a character of \<^verbatim>\<open>a-z # / @\<close>, then the
  shortest text without an opening bracket up to a closing bracket. An odd number of
  backslashes before the tag escapes it. The name of a tag ends at its first \<^verbatim>\<open>=\<close>. A
  name that starts with \<^verbatim>\<open>/\<close> closes the topmost open tag of that name, or the topmost
  open tag when no name follows the slash; the renderer raises when there is no such
  tag. Tags left open at the end are closed silently.

  Two things are simpler than in the library. Names are compared after \<^verbatim>\<open>strip\<close> and
  \<^verbatim>\<open>lower\<close>; the library also identifies the different spellings of one style, such as
  \<^verbatim>\<open>b\<close> and \<^verbatim>\<open>bold\<close>. The parameters of a handler tag (\<^verbatim>\<open>[@name=...]\<close>) are taken to
  evaluate; the library raises when they are no Python literal.
\<close>

definition first_tag_char :: "char \<Rightarrow> bool" where
  "first_tag_char c \<longleftrightarrow>
     (97 \<le> (of_char c :: nat) \<and> (of_char c :: nat) \<le> 122) \<or>
     c = CHR ''#'' \<or> c = CHR ''/'' \<or> c = CHR ''@''"

datatype scan_state =
    Outside nat
  | Opened nat
  | Inside nat string nat

fun scan_tags :: "scan_state \<Rightarrow> string \<Rightarrow> (nat \<times> string) list" where
  \<comment> \<open>The tags of a text, each with the number of backslashes before it. \<open>Outside n\<close>:
      in plain text after \<open>n\<close> backslashes; \<open>Opened n\<close>: after an opening bracket;
      \<open>Inside n t k\<close>: in a tag with text \<open>t\<close> that ends with \<open>k\<close> backslashes.\<close>
  "scan_tags st [] = []"
| "scan_tags (Outside esc) (c # cs) =
     (if c = CHR 0x5C then scan_tags (Outside (Suc esc)) cs
      else if c = CHR ''['' then scan_tags (Opened esc) cs
      else scan_tags (Outside 0) cs)"
| "scan_tags (Opened esc) (c # cs) =
     (if first_tag_char c then scan_tags (Inside esc [c] 0) cs
      else if c = CHR 0x5C then scan_tags (Outside 1) cs
      else if c = CHR ''['' then scan_tags (Opened 0) cs
      else scan_tags (Outside 0) cs)"
| "scan_tags (Inside esc t k) (c # cs) =
     (if c = CHR '']'' then (esc, t) # scan_tags (Outside 0) cs
      else if c = CHR ''['' then scan_tags (Opened k) cs
      else if c = CHR 0x5C then scan_tags (Inside esc (t @ [c]) (Suc k)) cs
      else scan_tags (Inside esc (t @ [c]) 0) cs)"

definition normalize_style :: "string \<Rightarrow> string" where
  "normalize_style name = lower (strip name)"

fun pop_style :: "string \<Rightarrow> string list \<Rightarrow> string list option" where
  \<comment> \<open>The stack of open tags, topmost first, without its topmost tag of the given name.\<close>
  "pop_style name [] = None"
| "pop_style name (t # ts) =
     (if t = name then Some ts else map_option ((#) t) (pop_style name ts))"

fun render_tags :: "string list \<Rightarrow> (nat \<times> string) list \<Rightarrow> bool" where
  \<comment> \<open>Whether the renderer raises on the tags, given the stack of open tags.\<close>
  "render_tags stack [] = False"
| "render_tags stack ((esc, t) # rest) =
     (if odd esc then render_tags stack rest
      else (let name = takeWhile (\<lambda>c. c \<noteq> CHR ''='') t
            in if startswith name ''/''
               then (let style_name = strip (tl name)
                     in if style_name \<noteq> []
                        then (case pop_style (normalize_style style_name) stack of
                                None \<Rightarrow> True
                              | Some stack' \<Rightarrow> render_tags stack' rest)
                        else (case stack of
                                [] \<Rightarrow> True
                              | open_tag # stack' \<Rightarrow> render_tags stack' rest))
               else render_tags (normalize_style name # stack) rest))"

definition markup_error :: "string \<Rightarrow> bool" where
  "markup_error t = render_tags [] (scan_tags (Outside 0) t)"

text \<open>
  The texts of the messages. \<^verbatim>\<open>str(e)\<close> of an \<^verbatim>\<open>OSError\<close> with a file name is the error
  number, the message of the C library and \<^verbatim>\<open>repr\<close> of the name; the messages are those of
  Linux.
\<close>

function decimal :: "nat \<Rightarrow> string" where
  \<comment> \<open>\<^verbatim>\<open>str(n)\<close>\<close>
  "decimal n =
     (if n < 10 then [char_of (48 + n)] else decimal (n div 10) @ [char_of (48 + n mod 10)])"
  by pat_completeness auto
termination
  by (relation "measure id") auto

definition hex_digit :: "nat \<Rightarrow> char" where
  "hex_digit n = ''0123456789abcdef'' ! (n mod 16)"

definition printable :: "char \<Rightarrow> bool" where
  \<comment> \<open>\<^verbatim>\<open>str.isprintable\<close> on one character\<close>
  "printable c \<longleftrightarrow>
     (let n = (of_char c :: nat)
      in (32 \<le> n \<and> n \<le> 126) \<or> (161 \<le> n \<and> n \<noteq> 173))"

definition repr_char :: "char \<Rightarrow> char \<Rightarrow> string" where
  "repr_char quote c =
     (if c = quote \<or> c = CHR 0x5C then [CHR 0x5C, c]
      else if c = CHR 0x09 then [CHR 0x5C, CHR ''t'']
      else if c = CHR 0x0A then [CHR 0x5C, CHR ''n'']
      else if c = CHR 0x0D then [CHR 0x5C, CHR ''r'']
      else if printable c then [c]
      else [CHR 0x5C, CHR ''x'', hex_digit (of_char c div 16), hex_digit (of_char c)])"

definition repr :: "string \<Rightarrow> string" where
  \<comment> \<open>\<^verbatim>\<open>repr(s)\<close>: double quotes when \<open>s\<close> holds a single quote and no double quote.\<close>
  "repr s =
     (let quote = (if CHR 0x27 \<in> set s \<and> CHR 0x22 \<notin> set s then CHR 0x22 else CHR 0x27)
      in [quote] @ concat (map (repr_char quote) s) @ [quote])"

fun error_text :: "error \<Rightarrow> string" where
  \<comment> \<open>\<^verbatim>\<open>str(e)\<close>\<close>
  "error_text (FileNotFoundError p) = ''[Errno 2] No such file or directory: '' @ repr p"
| "error_text (IsADirectoryError p) = ''[Errno 21] Is a directory: '' @ repr p"
| "error_text (PermissionError p) = ''[Errno 13] Permission denied: '' @ repr p"
| "error_text (OSError p) = ''[Errno 36] File name too long: '' @ repr p"
| "error_text ReadError = ''[Errno 5] Input/output error''"
| "error_text (OpenForWritingError p) = ''[Errno 13] Permission denied: '' @ repr p"
| "error_text (WriteError p) = ''[Errno 28] No space left on device''"
| "error_text MarkupError = []"

fun markup_text :: "message \<Rightarrow> string" where
  \<comment> \<open>The text that \<^verbatim>\<open>console.print\<close> receives for a message with interpolated values.
      The marker of an interesting attribute, U+25B6, is no character of the model and is
      written \<^verbatim>\<open>>\<close>: both are plain text to the renderer.\<close>
  "markup_text (ErrorReadingFile e) =
     ''[bold red]Error reading file: '' @ error_text e @ ''[/]''"
| "markup_text (FileNotFound p) = ''[bold red]File not found:[/] '' @ p"
| "markup_text (Statistics n m p) =
     ''\<newline>    Total Attributes Found: '' @ decimal n @
     ''\<newline>    Interesting Attributes: '' @ decimal m @
     ''\<newline>    Analyzed File: '' @ p @ ''\<newline>    ''"
| "markup_text (InterestingItem attr) = ''[bold red]>[/] [cyan]'' @ attr @ ''[/]''"
| "markup_text (SavedTo p) = ''\<newline>[green]Raw attributes list saved to:[/] '' @ p"
| "markup_text m = []"

definition rich_refuses :: renderer where
  "rich_refuses m = markup_error (markup_text m)"

subsection \<open>Sample worlds\<close>

definition example_text :: string where
  "example_text =
     ''cn: John\<newline>userPassword: xyz\<newline># comment\<newline>mail\<newline>legacyFlag: true\<newline>''"

definition example_world :: world where
  "example_world =
     \<lparr>files = [''dump.ldif'' \<mapsto> File True True example_text None,
               ''broken.ldif'' \<mapsto> File True True example_text (Some 2),
               ''secret.ldif'' \<mapsto> File False True example_text None,
               ''home'' \<mapsto> Directory],
      creatable = (\<lambda>p. p = ''attrs.txt''),
      write_fault = (\<lambda>p. None),
      written = Map.empty,
      console = []\<rparr>"



section \<open>Properties\<close>

subsection \<open>Console, strings and the reading loop\<close>

lemma files_console_print [simp]: "files (console_print w m) = files w"
  by (simp add: console_print_def)

lemma creatable_console_print [simp]: "creatable (console_print w m) = creatable w"
  by (simp add: console_print_def)

lemma write_fault_console_print [simp]: "write_fault (console_print w m) = write_fault w"
  by (simp add: console_print_def)

lemma written_console_print [simp]: "written (console_print w m) = written w"
  by (simp add: console_print_def)

lemma console_console_print [simp]: "console (console_print w m) = console w @ [m]"
  by (simp add: console_print_def)

lemma startswith_iff: "startswith s p \<longleftrightarrow> (\<exists>r. s = p @ r)"
  by (induction s p rule: startswith.induct) auto

lemma contains_iff: "contains sub s \<longleftrightarrow> (\<exists>ps ss. s = ps @ sub @ ss)"
proof (induction s)
  case Nil
  then show ?case by simp
next
  case (Cons c cs)
  have "(\<exists>ps ss. c # cs = ps @ sub @ ss) \<longleftrightarrow>
        (\<exists>ss. c # cs = sub @ ss) \<or> (\<exists>ps ss. cs = ps @ sub @ ss)"
  proof
    assume "\<exists>ps ss. c # cs = ps @ sub @ ss"
    then obtain ps ss where eq: "c # cs = ps @ sub @ ss" by blast
    show "(\<exists>ss. c # cs = sub @ ss) \<or> (\<exists>ps ss. cs = ps @ sub @ ss)"
    proof (cases ps)
      case Nil
      with eq show ?thesis by auto
    next
      case (Cons q qs)
      with eq have "cs = qs @ sub @ ss" by simp
      then show ?thesis by blast
    qed
  next
    assume "(\<exists>ss. c # cs = sub @ ss) \<or> (\<exists>ps ss. cs = ps @ sub @ ss)"
    then show "\<exists>ps ss. c # cs = ps @ sub @ ss"
    proof
      assume "\<exists>ss. c # cs = sub @ ss"
      then obtain ss where "c # cs = [] @ sub @ ss" by auto
      then show ?thesis by blast
    next
      assume "\<exists>ps ss. cs = ps @ sub @ ss"
      then obtain ps ss where "cs = ps @ sub @ ss" by blast
      then have "c # cs = (c # ps) @ sub @ ss" by simp
      then show ?thesis by blast
    qed
  qed
  with Cons show ?case by (simp add: startswith_iff)
qed



lemma open_read_console_print [simp]: "open_read (console_print w m) p = open_read w p"
  by (simp add: open_read_def)


lemma files_add_task [simp]: "files (add_task w d) = files w"
  by (simp add: add_task_def)

lemma creatable_add_task [simp]: "creatable (add_task w d) = creatable w"
  by (simp add: add_task_def)

lemma write_fault_add_task [simp]: "write_fault (add_task w d) = write_fault w"
  by (simp add: add_task_def)

lemma written_add_task [simp]: "written (add_task w d) = written w"
  by (simp add: add_task_def)

lemma console_add_task [simp]: "console (add_task w d) = console w @ [TaskAdded d]"
  by (simp add: add_task_def)

lemma files_update_completed [simp]: "files (update_completed w d) = files w"
  by (simp add: update_completed_def)

lemma creatable_update_completed [simp]: "creatable (update_completed w d) = creatable w"
  by (simp add: update_completed_def)

lemma write_fault_update_completed [simp]:
  "write_fault (update_completed w d) = write_fault w"
  by (simp add: update_completed_def)

lemma written_update_completed [simp]: "written (update_completed w d) = written w"
  by (simp add: update_completed_def)

lemma console_update_completed [simp]:
  "console (update_completed w d) = console w @ [TaskCompleted d]"
  by (simp add: update_completed_def)

lemma files_show_banner [simp]: "files (show_banner w) = files w"
  by (simp add: show_banner_def)

lemma creatable_show_banner [simp]: "creatable (show_banner w) = creatable w"
  by (simp add: show_banner_def)

lemma write_fault_show_banner [simp]: "write_fault (show_banner w) = write_fault w"
  by (simp add: show_banner_def)

lemma written_show_banner [simp]: "written (show_banner w) = written w"
  by (simp add: show_banner_def)

lemma console_show_banner [simp]: "console (show_banner w) = console w @ [Banner]"
  by (simp add: show_banner_def)

lemma open_read_cong: "files w' p = files w p \<Longrightarrow> open_read w' p = open_read w p"
  by (simp add: open_read_def)

lemma path_exists_cong: "files w' p = files w p \<Longrightarrow> path_exists w' p = path_exists w p"
  by (simp add: path_exists_def)

subsection \<open>Extraction\<close>

text \<open>
  The body of the \<^verbatim>\<open>try\<close> block either yields a set or an exception; the function
  returns the set, or prints the exception and returns the empty set, unless that
  print raises.
\<close>

lemma extract_ldap_attributes_cases:
  "extract_ldap_attributes refuses w p =
     (case (case open_read w p of Inl e \<Rightarrow> Inl e | Inr f \<Rightarrow> scan_lines {||} f) of
        Inr attributes \<Rightarrow>
          Inr (w\<lparr>console := console w @
                 [TaskAdded ''[cyan]Analyzing LDAP dump...'',
                  TaskCompleted ''[cyan]Analyzing LDAP dump...'']\<rparr>, attributes)
      | Inl e \<Rightarrow>
          if refuses (ErrorReadingFile e)
          then Inl (MarkupError,
                 w\<lparr>console := console w @
                   [TaskAdded ''[cyan]Analyzing LDAP dump...'',
                    TaskCompleted ''[cyan]Analyzing LDAP dump...'']\<rparr>)
          else Inr (w\<lparr>console := console w @
                      [TaskAdded ''[cyan]Analyzing LDAP dump...'',
                       TaskCompleted ''[cyan]Analyzing LDAP dump...'',
                       ErrorReadingFile e]\<rparr>, {||}))"
  by (simp add: extract_ldap_attributes_def Let_def add_task_def update_completed_def
      console_print_markup_def console_print_def open_read_def split: sum.splits)

lemma returned_extract:
  "returned (extract_ldap_attributes refuses w p) =
     (case (case open_read w p of Inl e \<Rightarrow> Inl e | Inr f \<Rightarrow> scan_lines {||} f) of
        Inr attributes \<Rightarrow> Inr attributes
      | Inl e \<Rightarrow> if refuses (ErrorReadingFile e) then Inl MarkupError else Inr {||})"
  by (simp add: extract_ldap_attributes_cases returned_def split: sum.splits)

lemma world_after_extract:
  "world_after (extract_ldap_attributes refuses w p) =
     w\<lparr>console := console w @
         [TaskAdded ''[cyan]Analyzing LDAP dump...'',
          TaskCompleted ''[cyan]Analyzing LDAP dump...''] @
         (case (case open_read w p of Inl e \<Rightarrow> Inl e | Inr f \<Rightarrow> scan_lines {||} f) of
            Inr attributes \<Rightarrow> []
          | Inl e \<Rightarrow> if refuses (ErrorReadingFile e) then [] else [ErrorReadingFile e])\<rparr>"
  by (simp add: extract_ldap_attributes_cases world_after_def split: sum.splits)





lemma isspace_hash [simp]: "\<not> isspace (CHR ''#'')"
  by (simp add: isspace_def)

lemma isspace_colon [simp]: "\<not> isspace (CHR '':'')"
  by (simp add: isspace_def)




text \<open>
  Claim C7. What a run of the extractor returns, the set or the exception, is a function
  of the file alone: two runs on worlds that hold the same file return the same, and a
  run leaves every file as it was, so a second run right after the first returns the same
  set again.
\<close>

theorem extract_ldap_attributes_deterministic:
  assumes "files w' p = files w p"
  shows "returned (extract_ldap_attributes refuses w' p) =
           returned (extract_ldap_attributes refuses w p) \<and>
         files (world_after (extract_ldap_attributes refuses w p)) = files w"
  by (simp add: returned_extract world_after_extract open_read_cong [OF assms])

theorem extract_ldap_attributes_deterministic_witness:
  "files (world_after (extract_ldap_attributes rich_refuses example_world ''dump.ldif''))
     ''dump.ldif'' = files example_world ''dump.ldif'' \<and>
   returned (extract_ldap_attributes rich_refuses
          (world_after (extract_ldap_attributes rich_refuses example_world ''dump.ldif''))
          ''dump.ldif'') =
     returned (extract_ldap_attributes rich_refuses example_world ''dump.ldif'') \<and>
   files (world_after (extract_ldap_attributes rich_refuses example_world ''dump.ldif'')) =
     files example_world \<and>
   returned (extract_ldap_attributes rich_refuses example_world ''dump.ldif'') =
     Inr {|''cn'', ''userPassword'', ''legacyFlag''|}"
proof -
  have h: "files (world_after (extract_ldap_attributes rich_refuses example_world ''dump.ldif''))
     ''dump.ldif'' = files example_world ''dump.ldif''"
    by (simp add: world_after_extract)
  have v: "returned (extract_ldap_attributes rich_refuses example_world ''dump.ldif'') =
     Inr {|''cn'', ''userPassword'', ''legacyFlag''|}"
    by code_simp
  show ?thesis
    using h extract_ldap_attributes_deterministic [OF h] v by (intro conjI) simp_all
qed

subsection \<open>The keyword matcher\<close>

lemma find_fst_files [simp]: "files (fst (find_interesting_attributes w A)) = files w"
  by (simp add: find_interesting_attributes_def Let_def)

lemma find_fst_creatable [simp]:
  "creatable (fst (find_interesting_attributes w A)) = creatable w"
  by (simp add: find_interesting_attributes_def Let_def)

lemma find_fst_write_fault [simp]:
  "write_fault (fst (find_interesting_attributes w A)) = write_fault w"
  by (simp add: find_interesting_attributes_def Let_def)

lemma find_fst_written [simp]:
  "written (fst (find_interesting_attributes w A)) = written w"
  by (simp add: find_interesting_attributes_def Let_def)

lemma find_fst_console [simp]:
  "console (fst (find_interesting_attributes w A)) =
     console w @ [TaskAdded ''[cyan]Hunting for interesting attributes...'',
                  TaskCompleted ''[cyan]Hunting for interesting attributes...'']"
  by (simp add: find_interesting_attributes_def Let_def)

lemma collect_interesting_filter:
  "collect_interesting acc xs = acc @ filter is_interesting xs"
  by (induction xs arbitrary: acc) simp_all

lemma is_interesting_iff:
  "is_interesting a \<longleftrightarrow>
     (\<exists>k \<in> set [''cascade'', ''legacy'', ''pwd'', ''password'', ''secret'', ''cred'',
                  ''hash'', ''key'', ''backup'', ''admin'', ''service'', ''old'', ''temp''].
        \<exists>ps ss. lower a = ps @ k @ ss)"
  unfolding is_interesting_def keyword_list_def list_ex_iff contains_iff ..

lemma find_interesting_in_order_eq:
  assumes "distinct order" and "fset_of_list order = attributes"
  shows "find_interesting_in_order order =
           sorted_list_of_set {a. a |\<in>| attributes \<and> is_interesting a}"
proof -
  have s: "set order = fset attributes"
    using assms(2) by (metis fset_of_list.rep_eq)
  have "sorted (sort (filter is_interesting order))" by simp
  moreover have "distinct (sort (filter is_interesting order))"
    using assms(1) by simp
  moreover have "set (sort (filter is_interesting order)) =
      {a. a |\<in>| attributes \<and> is_interesting a}"
    using s by auto
  moreover have "finite {a. a |\<in>| attributes \<and> is_interesting a}"
    by simp
  ultimately show ?thesis
    unfolding find_interesting_in_order_def collect_interesting_filter
    by (metis append_Nil sorted_list_of_set.idem_if_sorted_distinct)
qed

lemma find_interesting_attributes_eq:
  "snd (find_interesting_attributes w attributes) =
     sorted_list_of_set {a. a |\<in>| attributes \<and> is_interesting a}"
proof -
  have "snd (find_interesting_attributes w attributes) =
        find_interesting_in_order (sorted_list_of_fset attributes)"
    by (simp add: find_interesting_attributes_def find_interesting_in_order_def Let_def)
  also have "\<dots> = sorted_list_of_set {a. a |\<in>| attributes \<and> is_interesting a}"
  proof (rule find_interesting_in_order_eq)
    show "distinct (sorted_list_of_fset attributes)"
      by (simp add: sorted_list_of_fset.rep_eq)
    show "fset_of_list (sorted_list_of_fset attributes) = attributes"
      by simp
  qed
  finally show ?thesis .
qed

text \<open>
  Claim C2. Whatever the order in which the attribute set is iterated, the matcher
  returns the same list. The list holds only members of the set, holds each of them once,
  is sorted by the case-sensitive lexicographic order of the names as they are, and its
  members are exactly the attributes whose lower-case form contains one of the thirteen
  keywords as a substring.
\<close>

theorem find_interesting_attributes_exact:
  assumes "distinct order" and "fset_of_list order = attributes"
  shows "snd (find_interesting_attributes w attributes) = find_interesting_in_order order \<and>
         set (find_interesting_in_order order) \<subseteq> fset attributes \<and>
         distinct (find_interesting_in_order order) \<and>
         sorted (find_interesting_in_order order) \<and>
         set (find_interesting_in_order order) =
           {a. a |\<in>| attributes \<and>
               (\<exists>k \<in> set [''cascade'', ''legacy'', ''pwd'', ''password'', ''secret'', ''cred'',
                            ''hash'', ''key'', ''backup'', ''admin'', ''service'', ''old'',
                            ''temp''].
                  \<exists>ps ss. lower a = ps @ k @ ss)}"
proof -
  let ?S = "{a. a |\<in>| attributes \<and> is_interesting a}"
  have fin: "finite ?S" by simp
  have eq: "find_interesting_in_order order = sorted_list_of_set ?S"
    using assms by (rule find_interesting_in_order_eq)
  have "snd (find_interesting_attributes w attributes) = find_interesting_in_order order"
    by (simp add: eq find_interesting_attributes_eq)
  moreover have "set (find_interesting_in_order order) = ?S"
    using fin by (simp add: eq)
  moreover have "distinct (find_interesting_in_order order)"
    by (simp add: eq)
  moreover have "sorted (find_interesting_in_order order)"
    by (simp add: eq)
  moreover have "?S \<subseteq> fset attributes" by auto
  moreover have "?S = {a. a |\<in>| attributes \<and>
               (\<exists>k \<in> set [''cascade'', ''legacy'', ''pwd'', ''password'', ''secret'', ''cred'',
                            ''hash'', ''key'', ''backup'', ''admin'', ''service'', ''old'',
                            ''temp''].
                  \<exists>ps ss. lower a = ps @ k @ ss)}"
    by (simp only: is_interesting_iff)
  ultimately show ?thesis by simp
qed

theorem find_interesting_attributes_exact_witness:
  "distinct [''userPassword'', ''cn'', ''AdminKeyBackup'', ''Zkey'', ''legacyFlag''] \<and>
   (snd (find_interesting_attributes example_world
           (fset_of_list [''userPassword'', ''cn'', ''AdminKeyBackup'', ''Zkey'', ''legacyFlag''])) =
      find_interesting_in_order
        [''userPassword'', ''cn'', ''AdminKeyBackup'', ''Zkey'', ''legacyFlag''] \<and>
    set (find_interesting_in_order
           [''userPassword'', ''cn'', ''AdminKeyBackup'', ''Zkey'', ''legacyFlag'']) \<subseteq>
      fset (fset_of_list [''userPassword'', ''cn'', ''AdminKeyBackup'', ''Zkey'', ''legacyFlag'']) \<and>
    distinct (find_interesting_in_order
                [''userPassword'', ''cn'', ''AdminKeyBackup'', ''Zkey'', ''legacyFlag'']) \<and>
    sorted (find_interesting_in_order
              [''userPassword'', ''cn'', ''AdminKeyBackup'', ''Zkey'', ''legacyFlag'']) \<and>
    set (find_interesting_in_order
           [''userPassword'', ''cn'', ''AdminKeyBackup'', ''Zkey'', ''legacyFlag'']) =
      {a. a |\<in>| fset_of_list
                   [''userPassword'', ''cn'', ''AdminKeyBackup'', ''Zkey'', ''legacyFlag''] \<and>
          (\<exists>k \<in> set [''cascade'', ''legacy'', ''pwd'', ''password'', ''secret'', ''cred'',
                       ''hash'', ''key'', ''backup'', ''admin'', ''service'', ''old'',
                       ''temp''].
             \<exists>ps ss. lower a = ps @ k @ ss)}) \<and>
   find_interesting_in_order
     [''userPassword'', ''cn'', ''AdminKeyBackup'', ''Zkey'', ''legacyFlag''] =
     [''AdminKeyBackup'', ''Zkey'', ''legacyFlag'', ''userPassword'']"
proof -
  have h: "distinct [''userPassword'', ''cn'', ''AdminKeyBackup'', ''Zkey'', ''legacyFlag'']"
    by simp
  have v: "find_interesting_in_order
     [''userPassword'', ''cn'', ''AdminKeyBackup'', ''Zkey'', ''legacyFlag''] =
     [''AdminKeyBackup'', ''Zkey'', ''legacyFlag'', ''userPassword'']"
    by code_simp
  show ?thesis
    by (rule conjI [OF h conjI [OF find_interesting_attributes_exact [OF h refl] v]])
qed

text \<open>
  Claim C8. The dump with the lines \<^verbatim>\<open>cn: John\<close>, \<^verbatim>\<open>userPassword: xyz\<close>,
  \<^verbatim>\<open># comment\<close>, \<^verbatim>\<open>mail\<close> and \<^verbatim>\<open>legacyFlag: true\<close> gives the attribute set
  \<open>{cn, userPassword, legacyFlag}\<close> and the interesting list
  \<open>[legacyFlag, userPassword]\<close>, whatever the renderer.
\<close>

theorem sample_dump:
  "returned (extract_ldap_attributes refuses example_world ''dump.ldif'') =
     Inr {|''cn'', ''userPassword'', ''legacyFlag''|} \<and>
   (case extract_ldap_attributes refuses example_world ''dump.ldif'' of
      Inl x \<Rightarrow> False
    | Inr (w1, attributes) \<Rightarrow>
        snd (find_interesting_attributes w1 attributes) =
          [''legacyFlag'', ''userPassword''])"
  by code_simp

subsection \<open>Steps that only print\<close>

lemma only_prints_refl [simp]: "only_prints w w"
  by (simp add: only_prints_def)

lemma only_prints_trans:
  assumes "only_prints w w1" and "only_prints w1 w2"
  shows "only_prints w w2"
proof -
  obtain m1 where m1: "console w1 = console w @ m1" "\<forall>q. SavedTo q \<notin> set m1"
    using assms(1) by (auto simp: only_prints_def)
  obtain m2 where m2: "console w2 = console w1 @ m2" "\<forall>q. SavedTo q \<notin> set m2"
    using assms(2) by (auto simp: only_prints_def)
  have "console w2 = console w @ (m1 @ m2)" by (simp add: m1(1) m2(1))
  moreover have "\<forall>q. SavedTo q \<notin> set (m1 @ m2)" using m1(2) m2(2) by simp
  ultimately have "\<exists>msgs. console w2 = console w @ msgs \<and> (\<forall>q. SavedTo q \<notin> set msgs)"
    by blast
  with assms show ?thesis by (simp add: only_prints_def)
qed

lemma only_prints_console_print:
  assumes "\<forall>q. m \<noteq> SavedTo q"
  shows "only_prints w (console_print w m)"
proof -
  have "console (console_print w m) = console w @ [m]" by simp
  moreover have "\<forall>q. SavedTo q \<notin> set [m]" using assms by auto
  ultimately have "\<exists>msgs. console (console_print w m) = console w @ msgs \<and>
      (\<forall>q. SavedTo q \<notin> set msgs)"
    by blast
  then show ?thesis by (simp add: only_prints_def)
qed

lemma only_prints_markup:
  assumes "\<forall>q. m \<noteq> SavedTo q"
  shows "only_prints w (final_world (console_print_markup refuses w m))"
  using only_prints_console_print [OF assms]
  by (simp add: console_print_markup_def final_world_def)

lemma only_prints_show_banner: "only_prints w (show_banner w)"
  unfolding show_banner_def by (rule only_prints_console_print) simp

lemma only_prints_print_interesting:
  "only_prints w (final_world (print_interesting refuses w xs))"
proof (induction xs arbitrary: w)
  case Nil
  then show ?case by (simp add: final_world_def)
next
  case (Cons x xs)
  show ?case
  proof (cases "refuses (InterestingItem x)")
    case True
    then show ?thesis by (simp add: console_print_markup_def final_world_def)
  next
    case False
    have "only_prints w (console_print w (InterestingItem x))"
      by (rule only_prints_console_print) simp
    moreover have "only_prints (console_print w (InterestingItem x))
        (final_world (print_interesting refuses (console_print w (InterestingItem x)) xs))"
      by (rule Cons.IH)
    ultimately have "only_prints w
        (final_world (print_interesting refuses (console_print w (InterestingItem x)) xs))"
      by (rule only_prints_trans)
    with False show ?thesis by (simp add: console_print_markup_def)
  qed
qed

lemma only_prints_extract:
  "only_prints w (world_after (extract_ldap_attributes refuses w p))"
proof -
  let ?ms = "[TaskAdded ''[cyan]Analyzing LDAP dump...'',
          TaskCompleted ''[cyan]Analyzing LDAP dump...''] @
         (case (case open_read w p of Inl e \<Rightarrow> Inl e | Inr f \<Rightarrow> scan_lines {||} f) of
            Inr attributes \<Rightarrow> []
          | Inl e \<Rightarrow> if refuses (ErrorReadingFile e) then [] else [ErrorReadingFile e])"
  have "\<forall>q. SavedTo q \<notin> set ?ms" by (simp split: sum.splits)
  moreover have "console (world_after (extract_ldap_attributes refuses w p)) = console w @ ?ms"
    by (simp add: world_after_extract)
  ultimately have "\<exists>msgs. console (world_after (extract_ldap_attributes refuses w p)) =
      console w @ msgs \<and> (\<forall>q. SavedTo q \<notin> set msgs)"
    by blast
  then show ?thesis by (simp add: only_prints_def world_after_extract)
qed

lemma only_prints_find: "only_prints w (fst (find_interesting_attributes w A))"
proof -
  have "\<forall>q. SavedTo q \<notin> set [TaskAdded ''[cyan]Hunting for interesting attributes...'',
                  TaskCompleted ''[cyan]Hunting for interesting attributes...'']"
    by simp
  then have "\<exists>msgs. console (fst (find_interesting_attributes w A)) = console w @ msgs \<and>
      (\<forall>q. SavedTo q \<notin> set msgs)"
    using find_fst_console [of w A] by blast
  then show ?thesis by (simp add: only_prints_def)
qed

text \<open>Without a save, the report only prints.\<close>

lemma only_prints_report:
  assumes "args_output a = None \<or> args_output a = Some []"
  shows "only_prints w (final_world (report refuses w a A I))"
proof -
  let ?w3 = "console_print w AnalysisComplete"
  let ?st = "Statistics (fcard A) (length I) (args_file a)"
  have s3: "only_prints w ?w3" by (rule only_prints_console_print) simp
  show ?thesis
  proof (cases "refuses ?st")
    case True
    with s3 assms show ?thesis
      by (auto simp: report_def Let_def console_print_markup_def final_world_def)
  next
    case False
    let ?w4 = "console_print ?w3 ?st"
    have "only_prints ?w3 ?w4" by (rule only_prints_console_print) simp
    with s3 have s4: "only_prints w ?w4" by (rule only_prints_trans)
    let ?r5 = "if I \<noteq> []
               then print_interesting refuses (console_print ?w4 InterestingHeader) I
               else Inr ?w4"
    have s5: "only_prints w (final_world ?r5)"
    proof (cases "I = []")
      case True
      with s4 show ?thesis by (simp add: final_world_def)
    next
      case False
      have "only_prints ?w4 (console_print ?w4 InterestingHeader)"
        by (rule only_prints_console_print) simp
      then have "only_prints ?w4
          (final_world (print_interesting refuses (console_print ?w4 InterestingHeader) I))"
        using only_prints_print_interesting by (rule only_prints_trans)
      with s4 have "only_prints w
          (final_world (print_interesting refuses (console_print ?w4 InterestingHeader) I))"
        by (rule only_prints_trans)
      with False show ?thesis by simp
    qed
    have "final_world (report refuses w a A I) = final_world ?r5"
      using \<open>\<not> refuses ?st\<close> assms
      by (auto simp: report_def Let_def console_print_markup_def final_world_def
          split: sum.splits)
    with s5 show ?thesis by simp
  qed
qed

lemma main_exists:
  assumes "path_exists w (args_file a) = Inr True"
  shows "main refuses w a =
     (case extract_ldap_attributes refuses (show_banner w) (args_file a) of
        Inl x \<Rightarrow> Inl x
      | Inr (w1, A) \<Rightarrow>
          report refuses (fst (find_interesting_attributes w1 A)) a A
            (snd (find_interesting_attributes w1 A)))"
proof -
  have "path_exists (show_banner w) (args_file a) = Inr True"
    using assms by (simp add: path_exists_def)
  then show ?thesis
    by (simp add: main_def Let_def split: sum.splits prod.splits)
qed

lemma main_not_exists:
  assumes "path_exists w (args_file a) \<noteq> Inr True"
  shows "main refuses w a =
     (case path_exists w (args_file a) of
        Inl e \<Rightarrow> Inl (e, show_banner w)
      | Inr b \<Rightarrow> console_print_markup refuses (show_banner w) (FileNotFound (args_file a)))"
proof -
  have "path_exists (show_banner w) (args_file a) = path_exists w (args_file a)"
    by (simp add: path_exists_def)
  with assms show ?thesis
    by (simp add: main_def Let_def split: sum.splits bool.splits)
qed

text \<open>Without a save, \<open>main\<close> only prints.\<close>

lemma only_prints_main:
  assumes "args_output a = None \<or> args_output a = Some []"
  shows "only_prints w (final_world (main refuses w a))"
proof (cases "path_exists w (args_file a) = Inr True")
  case False
  have b: "only_prints w (show_banner w)" by (rule only_prints_show_banner)
  have "only_prints (show_banner w)
      (final_world (console_print_markup refuses (show_banner w) (FileNotFound (args_file a))))"
    by (rule only_prints_markup) simp
  with b have "only_prints w
      (final_world (console_print_markup refuses (show_banner w) (FileNotFound (args_file a))))"
    by (rule only_prints_trans)
  then have c: "only_prints w
      (final_world (console_print_markup refuses (show_banner w) (FileNotFound (args_file a))))"
    .
  show ?thesis
  proof (cases "path_exists w (args_file a)")
    case (Inl e)
    with b show ?thesis by (simp add: main_not_exists [OF False] final_world_def)
  next
    case (Inr bb)
    with c show ?thesis by (simp add: main_not_exists [OF False])
  qed
next
  case True
  have b: "only_prints w (show_banner w)" by (rule only_prints_show_banner)
  have x: "only_prints (show_banner w)
      (world_after (extract_ldap_attributes refuses (show_banner w) (args_file a)))"
    by (rule only_prints_extract)
  show ?thesis
  proof (cases "extract_ldap_attributes refuses (show_banner w) (args_file a)")
    case (Inl ew)
    obtain e w' where "ew = (e, w')" by (cases ew)
    with Inl x b have "only_prints w w'"
      by (auto simp: world_after_def intro: only_prints_trans)
    with Inl \<open>ew = (e, w')\<close> show ?thesis
      by (simp add: main_exists [OF True] final_world_def)
  next
    case (Inr wa)
    obtain w1 A where wa: "wa = (w1, A)" by (cases wa)
    with Inr x have "only_prints (show_banner w) w1" by (simp add: world_after_def)
    with b have "only_prints w w1" by (rule only_prints_trans)
    then have "only_prints w (fst (find_interesting_attributes w1 A))"
      using only_prints_find by (rule only_prints_trans)
    then have "only_prints w (final_world (report refuses
        (fst (find_interesting_attributes w1 A)) a A (snd (find_interesting_attributes w1 A))))"
      using only_prints_report [OF assms] by (rule only_prints_trans)
    with Inr wa show ?thesis by (simp add: main_exists [OF True])
  qed
qed

subsection \<open>The reporter\<close>

lemma utf8_encode_append: "utf8_encode (s @ t) = utf8_encode s @ utf8_encode t"
  by (simp add: utf8_encode_def)





















text \<open>
  Claim C9. \<open>save_raw_output\<close> never looks at its \<open>interesting\<close> argument: two calls that
  differ only there have the same result, world and written text included.
\<close>

theorem save_raw_output_ignores_interesting:
  "save_raw_output w file_path attributes interesting1 =
   save_raw_output w file_path attributes interesting2"
  by (simp add: save_raw_output_def)

subsection \<open>The main program\<close>









text \<open>
  Claim C10. An output path that is the empty string counts as no output path: \<open>main\<close>
  has the same result as without the option, and whether it returns or raises, no file is
  written and no save confirmation is among the messages it prints.
\<close>

theorem empty_output_path:
  "main refuses w (a\<lparr>args_output := Some []\<rparr>) = main refuses w (a\<lparr>args_output := None\<rparr>) \<and>
   files (final_world (main refuses w (a\<lparr>args_output := Some []\<rparr>))) = files w \<and>
   written (final_world (main refuses w (a\<lparr>args_output := Some []\<rparr>))) = written w \<and>
   (\<exists>msgs. console (final_world (main refuses w (a\<lparr>args_output := Some []\<rparr>))) =
              console w @ msgs \<and> (\<forall>q. SavedTo q \<notin> set msgs))"
proof -
  have eq: "main refuses w (a\<lparr>args_output := Some []\<rparr>) =
      main refuses w (a\<lparr>args_output := None\<rparr>)"
    by (simp add: main_def report_def Let_def split: sum.splits prod.splits bool.splits)
  have "only_prints w (final_world (main refuses w (a\<lparr>args_output := Some []\<rparr>)))"
    by (rule only_prints_main) simp
  with eq show ?thesis by (simp add: only_prints_def)
qed

end
